theory Spec2Isabelle
  imports Complex_Main "HOL-Library.Word"
begin

unbundle bit_operations_syntax

section \<open>Data model\<close>

text \<open>
  The daemon drives the LEDs of a NAS through an I2C LED chip and derives the LED pattern
  from the utilisation of a network interface.  The C++ types are embedded as follows:
  \<^verbatim>\<open>uint8_t\<close>, \<^verbatim>\<open>uint32_t\<close> and \<^verbatim>\<open>uint64_t\<close> are machine words; the C++ \<^verbatim>\<open>int\<close>
  used for return codes and for the checksum accumulator is \<open>int\<close> (the accumulator adds
  at most twelve bytes, return codes are only compared with 0 and combined with
  bitwise or, so no 32-bit overflow can occur).  The arithmetic of \<^verbatim>\<open>double\<close> is a parameter
  of the sampler, and the classifier compares finite doubles as the real numbers they
  denote (see the remarks there).
\<close>

type_synonym u8 = "8 word"
type_synonym u32 = "32 word"
type_synonym u64 = "64 word"

text \<open>
  \<^verbatim>\<open>enum class led_type_t : uint8_t\<close> of led_controller.h and its cast to \<^verbatim>\<open>uint8_t\<close>.  The
  enumerator \<^verbatim>\<open>power\<close> is written \<open>power_led\<close>, apart from the power operation of HOL.
\<close>

datatype led_type_t =
  power_led | netdev | disk1 | disk2 | disk3 | disk4 | disk5 | disk6 | disk7 | disk8

fun led_id :: "led_type_t \<Rightarrow> u8" where
  "led_id power_led = 0"
| "led_id netdev = 1"
| "led_id disk1 = 2"
| "led_id disk2 = 3"
| "led_id disk3 = 4"
| "led_id disk4 = 5"
| "led_id disk5 = 6"
| "led_id disk6 = 7"
| "led_id disk7 = 8"
| "led_id disk8 = 9"

text \<open>\<^verbatim>\<open>struct rgb_color_t { uint8_t r, g, b; }\<close> as the triple \<open>(r, g, b)\<close>, with the predefined colours.\<close>

type_synonym rgb_color_t = "u8 \<times> u8 \<times> u8"

definition COLOR_WHITE :: rgb_color_t where "COLOR_WHITE = (255, 255, 255)"
definition COLOR_GREEN :: rgb_color_t where "COLOR_GREEN = (0, 255, 0)"
definition COLOR_BLUE :: rgb_color_t where "COLOR_BLUE = (0, 0, 255)"
definition COLOR_RED :: rgb_color_t where "COLOR_RED = (255, 0, 0)"
definition COLOR_OFF :: rgb_color_t where "COLOR_OFF = (0, 0, 0)"

text \<open>
  The four parameter slots of a command, \<^verbatim>\<open>std::array<std::optional<uint8_t>, 4>\<close>;
  a braced list shorter than four leaves the remaining slots empty.
\<close>

type_synonym params_t = "u8 option \<times> u8 option \<times> u8 option \<times> u8 option"

definition value_or :: "u8 option \<Rightarrow> u8 \<Rightarrow> u8" where
  "value_or p d = (case p of None \<Rightarrow> d | Some v \<Rightarrow> v)"

section \<open>The bus and the clock as a trace of events\<close>

text \<open>
  The controller owns one \<^verbatim>\<open>i2c_device_t\<close> and sleeps between operations.  The state of
  the outside world is the sequence of calls made so far, oldest first: block writes
  (register address and data), byte reads (register address) and sleeps (microseconds).
\<close>

datatype event =
  WriteBlockData u8 "u8 list"
| ReadByteData u8
| Usleep nat

text \<open>
  Modelled from the spec: the class \<^verbatim>\<open>i2c_device_t\<close> (i2c.h) is not part of the sources at
  hand.  It is a parameter of the model: what a bus transaction returns is an arbitrary
  function of everything that happened before and of the arguments of the call, so a
  write may succeed (0) or fail (any other value) at any moment, and the acknowledge
  register may hold any value.
\<close>

record i2c_device_t =
  write_block_data_result :: "event list \<Rightarrow> u8 \<Rightarrow> u8 list \<Rightarrow> int"
  read_byte_data_result :: "event list \<Rightarrow> u8 \<Rightarrow> int"

text \<open>
  Modelled from the spec: \<^verbatim>\<open>i2c_device_t::write_block_data(command, data)\<close>, one blocking
  bus transaction that transmits \<open>data\<close> to register \<open>command\<close> and returns a status.
\<close>

definition write_block_data ::
  "i2c_device_t \<Rightarrow> u8 \<Rightarrow> u8 list \<Rightarrow> event list \<Rightarrow> int \<times> event list" where
  "write_block_data dev command data tr =
     (write_block_data_result dev tr command data, tr @ [WriteBlockData command data])"

text \<open>
  Modelled from the spec: \<^verbatim>\<open>i2c_device_t::read_byte_data(command)\<close>, one blocking bus
  transaction that returns the byte read from register \<open>command\<close>.
\<close>

definition read_byte_data :: "i2c_device_t \<Rightarrow> u8 \<Rightarrow> event list \<Rightarrow> int \<times> event list" where
  "read_byte_data dev command tr =
     (read_byte_data_result dev tr command, tr @ [ReadByteData command])"

definition usleep :: "nat \<Rightarrow> event list \<Rightarrow> event list" where
  "usleep us tr = tr @ [Usleep us]"

text \<open>The register addresses of the block writes in a trace, in the order of the writes.\<close>

fun writes_to :: "event list \<Rightarrow> u8 list" where
  "writes_to [] = []"
| "writes_to (WriteBlockData command data # tr) = command # writes_to tr"
| "writes_to (ReadByteData command # tr) = writes_to tr"
| "writes_to (Usleep us # tr) = writes_to tr"

section \<open>Checksum (led\_controller.cpp)\<close>

text \<open>
  \<^verbatim>\<open>compute_checksum\<close> adds the first \<open>sz\<close> bytes in an \<^verbatim>\<open>int\<close>; a size below 2 or beyond
  the vector yields 0.  The \<^verbatim>\<open>for\<close> loop over the indices \<open>0 .. sz - 1\<close> is the left fold
  over the prefix of that length.
\<close>

definition compute_checksum :: "u8 list \<Rightarrow> int \<Rightarrow> int" where
  "compute_checksum data sz =
     (if sz < 2 \<or> sz > int (length data) then 0
      else foldl (\<lambda>sum b. sum + uint b) 0 (take (nat sz) data))"

definition verify_checksum :: "u8 list \<Rightarrow> bool" where
  "verify_checksum data =
     (let sz = int (length data) in
      if sz < 2 then False
      else
        let sum = compute_checksum data (sz - 2) in
        sum \<noteq> 0 \<and>
        sum = (uint (data ! nat (sz - 1)) OR push_bit 8 (uint (data ! nat (sz - 2)))))"

definition append_checksum :: "u8 list \<Rightarrow> u8 list" where
  "append_checksum data =
     (let sz = int (length data);
          sum = compute_checksum data sz
      in data @ [word_of_int (drop_bit 8 sum AND 0xff)] @ [word_of_int (sum AND 0xff)])"

section \<open>LED controller (led\_controller.cpp)\<close>

text \<open>
  The initialiser of the vector \<^verbatim>\<open>data\<close> in \<^verbatim>\<open>_change_status\<close>: a zero in place of the
  address, the fixed header, the command and the four parameters, empty slots as 0.
\<close>

definition change_status_data :: "u8 \<Rightarrow> params_t \<Rightarrow> u8 list" where
  "change_status_data command params =
     (case params of (p0, p1, p2, p3) \<Rightarrow>
        [0x00, 0xa0, 0x01,
         0x00, 0x00, command,
         value_or p0 0x00, value_or p1 0x00, value_or p2 0x00, value_or p3 0x00])"

text \<open>
  \<^verbatim>\<open>_change_status\<close>: the checksum is appended first, then byte 0 is overwritten with the
  LED id, and the vector is written to the register of that LED.
\<close>

definition change_status ::
  "i2c_device_t \<Rightarrow> led_type_t \<Rightarrow> u8 \<Rightarrow> params_t \<Rightarrow> event list \<Rightarrow> int \<times> event list" where
  "change_status dev led command params tr =
     (let data = change_status_data command params;
          data = append_checksum data;
          data = data[0 := led_id led]
      in write_block_data dev (led_id led) data tr)"

definition set_onoff ::
  "i2c_device_t \<Rightarrow> led_type_t \<Rightarrow> u8 \<Rightarrow> event list \<Rightarrow> int \<times> event list" where
  "set_onoff dev led status tr =
     (if status \<ge> 2 then (- 1, tr)
      else change_status dev led 0x03 (Some status, None, None, None) tr)"

definition set_rgb ::
  "i2c_device_t \<Rightarrow> led_type_t \<Rightarrow> u8 \<Rightarrow> u8 \<Rightarrow> u8 \<Rightarrow> event list \<Rightarrow> int \<times> event list" where
  "set_rgb dev led r g b tr = change_status dev led 0x02 (Some r, Some g, Some b, None) tr"

definition set_brightness ::
  "i2c_device_t \<Rightarrow> led_type_t \<Rightarrow> u8 \<Rightarrow> event list \<Rightarrow> int \<times> event list" where
  "set_brightness dev led brightness tr =
     change_status dev led 0x01 (Some brightness, None, None, None) tr"

definition turn_off_led :: "i2c_device_t \<Rightarrow> led_type_t \<Rightarrow> event list \<Rightarrow> int \<times> event list" where
  "turn_off_led dev led tr = set_onoff dev led 0 tr"

text \<open>
  \<^verbatim>\<open>set_led_state\<close>: colour, 10 ms, brightness, 10 ms, on; the first failing step returns
  its result and ends the sequence.
\<close>

definition set_led_state ::
  "i2c_device_t \<Rightarrow> led_type_t \<Rightarrow> bool \<Rightarrow> rgb_color_t \<Rightarrow> u8 \<Rightarrow> event list \<Rightarrow> int \<times> event list" where
  "set_led_state dev led on color brightness tr =
     (if \<not> on then turn_off_led dev led tr
      else
        case color of (r, g, b) \<Rightarrow>
        case set_rgb dev led r g b tr of (result, tr) \<Rightarrow>
        if result \<noteq> 0 then (result, tr)
        else
          case set_brightness dev led brightness (usleep 10000 tr) of (result, tr) \<Rightarrow>
          if result \<noteq> 0 then (result, tr)
          else set_onoff dev led 1 (usleep 10000 tr))"

definition is_last_modification_successful ::
  "i2c_device_t \<Rightarrow> event list \<Rightarrow> bool \<times> event list" where
  "is_last_modification_successful dev tr =
     (case read_byte_data dev 0x80 tr of (v, tr) \<Rightarrow> (v = 1, tr))"

text \<open>
  \<^verbatim>\<open>turn_off_all_leds\<close>: power, netdev, disk1, disk2 with 20 ms after each of the first
  three; a non-zero result of a later LED is or-ed into \<open>result\<close>; when \<open>result\<close> is 0
  the acknowledge register is read after 50 ms more.
\<close>

definition turn_off_all_leds :: "i2c_device_t \<Rightarrow> event list \<Rightarrow> int \<times> event list" where
  "turn_off_all_leds dev tr =
     (case turn_off_led dev power_led tr of (result, tr) \<Rightarrow>
      case turn_off_led dev netdev (usleep 20000 tr) of (temp_result, tr) \<Rightarrow>
      let result = (if temp_result \<noteq> 0 then result OR temp_result else result) in
      case turn_off_led dev disk1 (usleep 20000 tr) of (temp_result, tr) \<Rightarrow>
      let result = (if temp_result \<noteq> 0 then result OR temp_result else result) in
      case turn_off_led dev disk2 (usleep 20000 tr) of (temp_result, tr) \<Rightarrow>
      let result = (if temp_result \<noteq> 0 then result OR temp_result else result) in
      if result = 0 then
        case is_last_modification_successful dev (usleep 50000 tr) of (ok, tr) \<Rightarrow>
        if \<not> ok then (- 1, tr) else (result, tr)
      else (result, tr))"

section \<open>Bandwidth sampler (bandwidth\_monitor.cpp)\<close>

text \<open>
  A \<^verbatim>\<open>steady_clock::time_point\<close> is its count of nanoseconds.
\<close>

record network_stats_t =
  rx_bytes :: u64
  tx_bytes :: u64
  timestamp :: int

text \<open>
  \<^verbatim>\<open>struct bandwidth_info_t\<close>.  The type \<open>'d\<close> stands for \<^verbatim>\<open>double\<close>: the sampler below works
  with any carrier and any arithmetic on it, and the LED state manager reads finite
  doubles as real numbers.
\<close>

record 'd bandwidth_info_t =
  rx_mbps :: 'd
  tx_mbps :: 'd
  total_mbps :: 'd
  usage_percentage :: 'd
  valid :: bool

text \<open>
  The floating-point operations that \<^verbatim>\<open>get_bandwidth_usage\<close> uses: the conversion of an
  integer (a literal such as \<^verbatim>\<open>8.0\<close>, a \<^verbatim>\<open>uint64_t\<close>, a \<^verbatim>\<open>uint32_t\<close> or the millisecond
  count) to \<^verbatim>\<open>double\<close>, addition, multiplication, division and the comparison \<open><\<close>.
  They are a parameter of the model, which therefore says nothing about rounding,
  infinities or NaN: every statement about the sampler holds for all operations, those
  of IEEE binary64 included.
\<close>

record 'd double_arith =
  d_of_int :: "int \<Rightarrow> 'd"
  d_add :: "'d \<Rightarrow> 'd \<Rightarrow> 'd"
  d_mul :: "'d \<Rightarrow> 'd \<Rightarrow> 'd"
  d_div :: "'d \<Rightarrow> 'd \<Rightarrow> 'd"
  d_less :: "'d \<Rightarrow> 'd \<Rightarrow> bool"

record bandwidth_monitor_t =
  interface :: string
  capacity_mbps :: u32
  last_stats :: network_stats_t
  initialized :: bool

definition UINT64_MAX :: u64 where
  "UINT64_MAX = 0xFFFFFFFFFFFFFFFF"

text \<open>\<^verbatim>\<open>duration_cast<milliseconds>\<close> of a nanosecond count truncates towards zero.\<close>

definition duration_cast_milliseconds :: "int \<Rightarrow> int" where
  "duration_cast_milliseconds ns = sgn ns * (\<bar>ns\<bar> div 1000000)"

text \<open>
  \<^verbatim>\<open>initialize\<close>: \<open>iface_exists\<close> is the answer of \<^verbatim>\<open>std::filesystem::exists\<close> and \<open>stats\<close>
  the sample returned by \<^verbatim>\<open>read_network_stats()\<close>, whose counters are both \<^verbatim>\<open>UINT64_MAX\<close>
  when neither sysfs nor /proc/net/dev could be read.
\<close>

definition initialize ::
  "bandwidth_monitor_t \<Rightarrow> bool \<Rightarrow> network_stats_t \<Rightarrow> bool \<times> bandwidth_monitor_t" where
  "initialize m iface_exists stats =
     (if \<not> iface_exists then (False, m)
      else
        let ini = (rx_bytes stats \<noteq> UINT64_MAX \<and> tx_bytes stats \<noteq> UINT64_MAX)
        in (ini, m\<lparr>last_stats := stats, initialized := ini\<rparr>))"

text \<open>
  The expression of \<^verbatim>\<open>rx_diff\<close> and \<^verbatim>\<open>tx_diff\<close> in \<^verbatim>\<open>get_bandwidth_usage\<close>, in 64-bit
  unsigned arithmetic.
\<close>

definition byte_diff :: "u64 \<Rightarrow> u64 \<Rightarrow> u64" where
  "byte_diff current previous =
     (if current \<ge> previous then current - previous
      else (UINT64_MAX - previous) + current)"

text \<open>
  \<^verbatim>\<open>get_bandwidth_usage\<close>, with the arithmetic \<open>fp\<close> of \<^verbatim>\<open>double\<close> and the sample \<open>current_stats\<close>
  that \<^verbatim>\<open>read_network_stats()\<close> returns in this call.  The three early returns leave the
  monitor as it is.
\<close>

definition get_bandwidth_usage ::
  "'d double_arith \<Rightarrow> bandwidth_monitor_t \<Rightarrow> network_stats_t
   \<Rightarrow> 'd bandwidth_info_t \<times> bandwidth_monitor_t" where
  "get_bandwidth_usage fp m current_stats =
     (let result = \<lparr>rx_mbps = d_of_int fp 0, tx_mbps = d_of_int fp 0,
                     total_mbps = d_of_int fp 0, usage_percentage = d_of_int fp 0,
                     valid = False\<rparr>
      in
      if \<not> initialized m then (result, m)
      else if rx_bytes current_stats = UINT64_MAX \<or> tx_bytes current_stats = UINT64_MAX
      then (result, m)
      else
        let time_diff =
              duration_cast_milliseconds (timestamp current_stats - timestamp (last_stats m))
        in
        if time_diff < 100 then (result, m)
        else
          let seconds = d_div fp (d_of_int fp time_diff) (d_of_int fp 1000);
              rx_diff = byte_diff (rx_bytes current_stats) (rx_bytes (last_stats m));
              tx_diff = byte_diff (tx_bytes current_stats) (tx_bytes (last_stats m));
              rx = d_div fp (d_mul fp (d_of_int fp (uint rx_diff)) (d_of_int fp 8))
                     (d_mul fp seconds (d_of_int fp 1000000));
              tx = d_div fp (d_mul fp (d_of_int fp (uint tx_diff)) (d_of_int fp 8))
                     (d_mul fp seconds (d_of_int fp 1000000));
              total = d_add fp rx tx;
              usage = d_mul fp (d_div fp total (d_of_int fp (uint (capacity_mbps m))))
                        (d_of_int fp 100);
              usage = (if d_less fp (d_of_int fp 100) usage then d_of_int fp 100 else usage)
          in (\<lparr>rx_mbps = rx, tx_mbps = tx, total_mbps = total, usage_percentage = usage,
                valid = True\<rparr>,
              m\<lparr>last_stats := current_stats\<rparr>))"

section \<open>LED state manager (led\_state\_manager.cpp)\<close>

datatype led_state_t =
  UTILIZATION_OFF | NETDEV_GREEN | NETDEV_DISK1_BLUE | ALL_UTILIZATION_RED

record led_state_manager_t =
  current_state :: led_state_t
  brightness :: u8
  low_threshold :: u8
  medium_threshold :: u8
  high_threshold :: u8

text \<open>
  \<^verbatim>\<open>determine_state_from_usage\<close> compares a \<^verbatim>\<open>double\<close> with the thresholds converted to
  \<^verbatim>\<open>double\<close>.  The conversion of a \<^verbatim>\<open>uint8_t\<close> is exact and the comparison of two finite
  doubles is the comparison of the real numbers they denote, so the function is
  modelled on the reals.
\<close>

definition determine_state_from_usage :: "led_state_manager_t \<Rightarrow> real \<Rightarrow> led_state_t" where
  "determine_state_from_usage mgr usage =
     (if usage < real (unat (low_threshold mgr)) then UTILIZATION_OFF
      else if usage < real (unat (medium_threshold mgr)) then NETDEV_GREEN
      else if usage < real (unat (high_threshold mgr)) then NETDEV_DISK1_BLUE
      else ALL_UTILIZATION_RED)"

text \<open>\<^verbatim>\<open>get_target_led_states\<close>: \<open>(netdev_on, disk1_on, disk2_on, color)\<close> of a state.\<close>

fun get_target_led_states :: "led_state_t \<Rightarrow> bool \<times> bool \<times> bool \<times> rgb_color_t" where
  "get_target_led_states UTILIZATION_OFF = (False, False, False, COLOR_OFF)"
| "get_target_led_states NETDEV_GREEN = (True, False, False, COLOR_GREEN)"
| "get_target_led_states NETDEV_DISK1_BLUE = (True, True, False, COLOR_BLUE)"
| "get_target_led_states ALL_UTILIZATION_RED = (True, True, True, COLOR_RED)"

text \<open>
  \<^verbatim>\<open>apply_led_state\<close>: the power LED first, and a failure there returns at once; then
  netdev, disk1 and disk2, each switched on in the target colour or switched off, with
  100 ms before each.  \<open>success\<close> is cleared by every failing LED.
\<close>

definition apply_led_state ::
  "i2c_device_t \<Rightarrow> led_state_manager_t \<Rightarrow> led_state_t \<Rightarrow> event list \<Rightarrow> bool \<times> event list" where
  "apply_led_state dev mgr state tr =
     (case get_target_led_states state of
        (target_netdev_on, target_disk1_on, target_disk2_on, target_color) \<Rightarrow>
      case set_led_state dev power_led True COLOR_WHITE (brightness mgr) tr of (result, tr) \<Rightarrow>
      if result \<noteq> 0 then (False, tr)
      else
        let success = True in
        case (if target_netdev_on
              then set_led_state dev netdev True target_color (brightness mgr) (usleep 100000 tr)
              else turn_off_led dev netdev (usleep 100000 tr)) of (result, tr) \<Rightarrow>
        let success = (if result \<noteq> 0 then False else success) in
        case (if target_disk1_on
              then set_led_state dev disk1 True target_color (brightness mgr) (usleep 100000 tr)
              else turn_off_led dev disk1 (usleep 100000 tr)) of (result, tr) \<Rightarrow>
        let success = (if result \<noteq> 0 then False else success) in
        case (if target_disk2_on
              then set_led_state dev disk2 True target_color (brightness mgr) (usleep 100000 tr)
              else turn_off_led dev disk2 (usleep 100000 tr)) of (result, tr) \<Rightarrow>
        let success = (if result \<noteq> 0 then False else success) in
        if \<not> success then (False, tr) else (True, tr))"

text \<open>
  \<^verbatim>\<open>update_leds\<close> returns its result, the manager and the trace after the call.
\<close>

definition update_leds ::
  "i2c_device_t \<Rightarrow> led_state_manager_t \<Rightarrow> real bandwidth_info_t \<Rightarrow> event list \<Rightarrow>
   bool \<times> led_state_manager_t \<times> event list" where
  "update_leds dev mgr bandwidth_info tr =
     (if \<not> valid bandwidth_info then (False, mgr, tr)
      else
        let new_state = determine_state_from_usage mgr (usage_percentage bandwidth_info) in
        if new_state \<noteq> current_state mgr then
          case apply_led_state dev mgr new_state tr of (ok, tr) \<Rightarrow>
          if ok then (True, mgr\<lparr>current_state := new_state\<rparr>, tr)
          else (False, mgr, tr)
        else (True, mgr, tr))"

section \<open>Notions used in the statements\<close>

text \<open>
  The value of the two trailing bytes of a frame read as a big-endian 16-bit number, and
  the arithmetic sum of all bytes before them.
\<close>

definition trailing_checksum :: "u8 list \<Rightarrow> nat" where
  "trailing_checksum frame =
     256 * unat (frame ! (length frame - 2)) + unat (frame ! (length frame - 1))"

definition leading_sum :: "u8 list \<Rightarrow> nat" where
  "leading_sum frame = sum_list (map unat (take (length frame - 2) frame))"

text \<open>The frames that switch an LED off and on, as \<^verbatim>\<open>_change_status\<close> transmits them.\<close>

definition off_frame :: "led_type_t \<Rightarrow> u8 list" where
  "off_frame led = [led_id led, 0xa0, 0x01, 0x00, 0x00, 0x03, 0x00, 0x00, 0x00, 0x00, 0x00, 0xa4]"

definition on_frame :: "led_type_t \<Rightarrow> u8 list" where
  "on_frame led = [led_id led, 0xa0, 0x01, 0x00, 0x00, 0x03, 0x01, 0x00, 0x00, 0x00, 0x00, 0xa5]"

text \<open>
  Four buses: every write succeeds and the acknowledge register reads 1; every write
  succeeds and the acknowledge register reads 0; the writes to the power LED (register 0)
  fail; the writes to the netdev LED (register 1) fail.
\<close>

definition ok_device :: i2c_device_t where
  "ok_device = \<lparr>write_block_data_result = (\<lambda>tr command data. 0),
                 read_byte_data_result = (\<lambda>tr command. 1)\<rparr>"

definition ack_fail_device :: i2c_device_t where
  "ack_fail_device = \<lparr>write_block_data_result = (\<lambda>tr command data. 0),
                       read_byte_data_result = (\<lambda>tr command. 0)\<rparr>"

definition power_fail_device :: i2c_device_t where
  "power_fail_device =
     \<lparr>write_block_data_result = (\<lambda>tr command data. if command = 0 then - 1 else 0),
      read_byte_data_result = (\<lambda>tr command. 1)\<rparr>"

definition netdev_fail_device :: i2c_device_t where
  "netdev_fail_device =
     \<lparr>write_block_data_result = (\<lambda>tr command data. if command = 1 then - 1 else 0),
      read_byte_data_result = (\<lambda>tr command. 1)\<rparr>"

text \<open>
  One of the three blocks of \<^verbatim>\<open>apply_led_state\<close> that handle netdev, disk1 and disk2: after
  the 100 ms delay the LED is switched on in the target colour or switched off.
\<close>

definition led_step ::
  "i2c_device_t \<Rightarrow> led_state_manager_t \<Rightarrow> led_type_t \<Rightarrow> bool \<Rightarrow> rgb_color_t \<Rightarrow> event list
   \<Rightarrow> int \<times> event list" where
  "led_step dev mgr led target_on target_color tr =
     (if target_on
      then set_led_state dev led True target_color (brightness mgr) (usleep 100000 tr)
      else turn_off_led dev led (usleep 100000 tr))"

text \<open>
  A manager as its constructor leaves it, with the default thresholds 10/40/80 and full
  brightness, and a valid reading of 15 percent.
\<close>

definition default_manager :: led_state_manager_t where
  "default_manager =
     \<lparr>current_state = UTILIZATION_OFF, brightness = 255,
      low_threshold = 10, medium_threshold = 40, high_threshold = 80\<rparr>"

definition low_reading :: "real bandwidth_info_t" where
  "low_reading =
     \<lparr>rx_mbps = 150, tx_mbps = 150, total_mbps = 300, usage_percentage = 15, valid = True\<rparr>"

text \<open>
  The byte delta in the words of the specification, on natural numbers, where nothing
  wraps around: \<open>current - previous\<close> if \<open>current \<ge> previous\<close>, else
  \<open>(U64_MAX - previous) + current\<close>.
\<close>

definition wraparound_delta :: "nat \<Rightarrow> nat \<Rightarrow> nat" where
  "wraparound_delta current previous =
     (if current \<ge> previous then current - previous
      else (2 ^ 64 - 1 - previous) + current)"

text \<open>
  An arithmetic that computes nothing: its values are the expressions themselves, so a
  result shows which integers entered the computation and how.  Its comparison never
  holds.
\<close>

datatype dexpr =
  Num int
| Add dexpr dexpr
| Mul dexpr dexpr
| Div dexpr dexpr

definition symbolic_arith :: "dexpr double_arith" where
  "symbolic_arith =
     \<lparr>d_of_int = Num, d_add = Add, d_mul = Mul, d_div = Div, d_less = (\<lambda>a b. False)\<rparr>"

text \<open>
  Whether both counters of a sample could be read, and the milliseconds between the
  stored sample and a new one.
\<close>

definition readable :: "network_stats_t \<Rightarrow> bool" where
  "readable stats = (rx_bytes stats \<noteq> UINT64_MAX \<and> tx_bytes stats \<noteq> UINT64_MAX)"

definition elapsed_ms :: "bandwidth_monitor_t \<Rightarrow> network_stats_t \<Rightarrow> int" where
  "elapsed_ms m stats = duration_cast_milliseconds (timestamp stats - timestamp (last_stats m))"

text \<open>
  Samplers and samples: a baseline 50 below the counter limit with a sample of 10 one
  second later; a baseline at time 0 with a sample 50 ms later; a sample whose counters
  could not be read.
\<close>

definition wrap_monitor :: bandwidth_monitor_t where
  "wrap_monitor =
     \<lparr>interface = ''eth0'', capacity_mbps = 2000,
      last_stats = \<lparr>rx_bytes = 0xFFFFFFFFFFFFFFFF - 50, tx_bytes = 0xFFFFFFFFFFFFFFFF - 50,
                    timestamp = 0\<rparr>,
      initialized = True\<rparr>"

definition wrap_sample :: network_stats_t where
  "wrap_sample = \<lparr>rx_bytes = 10, tx_bytes = 10, timestamp = 1000000000\<rparr>"

definition short_monitor :: bandwidth_monitor_t where
  "short_monitor =
     \<lparr>interface = ''eth0'', capacity_mbps = 2000,
      last_stats = \<lparr>rx_bytes = 1000, tx_bytes = 2000, timestamp = 0\<rparr>,
      initialized = True\<rparr>"

definition short_sample :: network_stats_t where
  "short_sample = \<lparr>rx_bytes = 5000, tx_bytes = 6000, timestamp = 50000000\<rparr>"

definition unreadable_sample :: network_stats_t where
  "unreadable_sample = \<lparr>rx_bytes = UINT64_MAX, tx_bytes = UINT64_MAX, timestamp = 1000000000\<rparr>"

section \<open>Auxiliary facts\<close>

lemma foldl_uint_sum: "foldl (\<lambda>sum b. sum + uint b) a xs = a + sum_list (map uint xs)"
  by (induction xs arbitrary: a) simp_all

lemma be16_join:
  assumes "0 \<le> s" and "s < 65536"
  shows "uint (word_of_int (s AND 0xff) :: u8)
         OR push_bit 8 (uint (word_of_int (drop_bit 8 s AND 0xff) :: u8)) = s"
proof -
  have m: "(0xff::int) = mask 8"
    by (simp add: mask_eq_exp_minus_1)
  have t: "take_bit 16 s = s"
    using assms by (simp add: take_bit_int_eq_self)
  have "take_bit 8 s OR push_bit 8 (take_bit 8 (drop_bit 8 s)) = take_bit 16 s"
    by (rule bit_eqI) (auto simp: bit_simps)
  then show ?thesis
    using t by (simp add: m uint_word_of_int_eq flip: take_bit_eq_mask)
qed

lemma compute_checksum_prefix:
  "2 \<le> length data \<Longrightarrow>
   compute_checksum (data @ rest) (int (length data)) = sum_list (map uint data)"
  by (simp add: compute_checksum_def foldl_uint_sum)

lemma sum_uint_nonneg: "0 \<le> sum_list (map uint (data :: u8 list))"
  by (induction data) simp_all

lemma verify_append_checksum:
  assumes len: "2 \<le> length data"
    and nz: "sum_list (map uint data) \<noteq> 0"
    and small: "sum_list (map uint data) < 65536"
  shows "verify_checksum (append_checksum data)"
proof -
  let ?s = "sum_list (map uint data)"
  have all: "compute_checksum data (int (length data)) = ?s"
    using compute_checksum_prefix [OF len, of "[]"] by simp
  have ap: "append_checksum data
            = data @ [word_of_int (drop_bit 8 ?s AND 0xff), word_of_int (?s AND 0xff)]"
    by (simp add: append_checksum_def all Let_def)
  have pre: "compute_checksum (data @ [word_of_int (drop_bit 8 ?s AND 0xff), word_of_int (?s AND 0xff)])
               (int (length data)) = ?s"
    by (rule compute_checksum_prefix [OF len])
  have j: "uint (word_of_int (?s AND 0xff) :: u8)
         OR push_bit 8 (uint (word_of_int (drop_bit 8 ?s AND 0xff) :: u8)) = ?s"
    by (rule be16_join [OF sum_uint_nonneg small])
  let ?hi = "word_of_int (drop_bit 8 ?s AND 0xff) :: u8"
  let ?lo = "word_of_int (?s AND 0xff) :: u8"
  have i1: "nat (int (length (data @ [?hi, ?lo])) - 1) = Suc (length data)"
    by simp
  have i2: "nat (int (length (data @ [?hi, ?lo])) - 2) = length data"
    by simp
  have i3: "int (length (data @ [?hi, ?lo])) - 2 = int (length data)"
    by simp
  have n1: "(data @ [?hi, ?lo]) ! Suc (length data) = ?lo"
    by (simp add: nth_append)
  have n2: "(data @ [?hi, ?lo]) ! length data = ?hi"
    by (simp add: nth_append)
  have "\<not> int (length (data @ [?hi, ?lo])) < 2"
    by simp
  then show ?thesis
    unfolding ap verify_checksum_def Let_def i1 i2 i3 n1 n2 pre
    using nz j by simp
qed

lemma change_status_data_sum:
  "sum_list (map uint (change_status_data command (p0, p1, p2, p3)))
   = 161 + uint command + uint (value_or p0 0) + uint (value_or p1 0)
     + uint (value_or p2 0) + uint (value_or p3 0)"
  by (simp add: change_status_data_def)

lemma uint_u8_bounds: "0 \<le> uint (w :: u8) \<and> uint w \<le> 255"
  using uint_lt2p [of w] by simp

lemma append_checksum_change_status_data:
  "\<exists>hi lo. append_checksum (change_status_data command (p0, p1, p2, p3))
            = change_status_data command (p0, p1, p2, p3) @ [hi, lo]
          \<and> 256 * unat hi + unat lo
            = 161 + unat command + unat (value_or p0 0) + unat (value_or p1 0)
              + unat (value_or p2 0) + unat (value_or p3 0)"
proof -
  let ?d = "change_status_data command (p0, p1, p2, p3)"
  let ?s = "sum_list (map uint ?d)"
  let ?hi = "word_of_int (drop_bit 8 ?s AND 0xff) :: u8"
  let ?lo = "word_of_int (?s AND 0xff) :: u8"
  have len: "2 \<le> length ?d"
    by (simp add: change_status_data_def)
  have all: "compute_checksum ?d (int (length ?d)) = ?s"
    using compute_checksum_prefix [OF len, of "[]"] by simp
  have ap: "append_checksum ?d = ?d @ [?hi, ?lo]"
    by (simp add: append_checksum_def all Let_def)
  have b: "0 \<le> ?s \<and> ?s < 65536"
    unfolding change_status_data_sum
    using uint_u8_bounds [of command] uint_u8_bounds [of "value_or p0 0"]
      uint_u8_bounds [of "value_or p1 0"] uint_u8_bounds [of "value_or p2 0"]
      uint_u8_bounds [of "value_or p3 0"]
    by linarith
  have m: "(0xff::int) = mask 8"
    by (simp add: mask_eq_exp_minus_1)
  have hi: "uint ?hi = ?s div 256"
  proof -
    have "?s div 256 < 256" using b by linarith
    moreover have "0 \<le> ?s div 256" using b by (simp add: pos_imp_zdiv_nonneg_iff)
    ultimately have "take_bit 8 (?s div 256) = ?s div 256"
      by (simp add: take_bit_int_eq_self)
    then show ?thesis
      by (simp add: m uint_word_of_int_eq drop_bit_eq_div flip: take_bit_eq_mask)
  qed
  have lo: "uint ?lo = ?s mod 256"
    by (simp add: m uint_word_of_int_eq take_bit_eq_mod flip: take_bit_eq_mask)
  have "256 * uint ?hi + uint ?lo = ?s"
    unfolding hi lo by simp
  then have "int (256 * unat ?hi + unat ?lo) = ?s"
    by simp
  also have "?s = int (161 + unat command + unat (value_or p0 0) + unat (value_or p1 0)
              + unat (value_or p2 0) + unat (value_or p3 0))"
    unfolding change_status_data_sum by simp
  finally have "256 * unat ?hi + unat ?lo
      = 161 + unat command + unat (value_or p0 0) + unat (value_or p1 0)
              + unat (value_or p2 0) + unat (value_or p3 0)"
    by (simp only: of_nat_eq_iff)
  with ap show ?thesis by blast
qed

lemma u8_less_2: "(status :: u8) < 2 \<longleftrightarrow> status = 0 \<or> status = 1"
proof
  assume "status < 2"
  then have "unat status < 2"
    by (simp add: word_less_nat_alt)
  then have "unat status = 0 \<or> unat status = 1"
    by linarith
  then show "status = 0 \<or> status = 1"
    by (auto simp: word_unat_eq_iff)
next
  assume "status = 0 \<or> status = 1"
  then show "status < 2" by auto
qed

lemma change_status_eq:
  "change_status dev led command params tr
   = (write_block_data_result dev tr (led_id led)
        ((append_checksum (change_status_data command params))[0 := led_id led]),
      tr @ [WriteBlockData (led_id led)
        ((append_checksum (change_status_data command params))[0 := led_id led])])"
  by (simp add: change_status_def write_block_data_def Let_def)

lemma onoff_frame_0:
  "(append_checksum (change_status_data 0x03 (Some 0, None, None, None)))[0 := led_id led]
   = off_frame led"
  by (simp add: append_checksum_def change_status_data_def compute_checksum_def value_or_def
      off_frame_def Let_def)

lemma onoff_frame_1:
  "(append_checksum (change_status_data 0x03 (Some 1, None, None, None)))[0 := led_id led]
   = on_frame led"
  by (simp add: append_checksum_def change_status_data_def compute_checksum_def value_or_def
      on_frame_def Let_def)

lemma turn_off_led_eq:
  "turn_off_led dev led tr
   = (write_block_data_result dev tr (led_id led) (off_frame led),
      tr @ [WriteBlockData (led_id led) (off_frame led)])"
  by (simp add: turn_off_led_def set_onoff_def change_status_eq onoff_frame_0)

lemma u8_not_2_le_1: "\<not> (2::u8) \<le> 1"
  by (simp add: word_le_nat_alt)

lemma or_if: "(if t \<noteq> 0 then r OR t else r) = r OR (t :: int)"
  by simp

lemma writes_to_append: "writes_to (a @ b) = writes_to a @ writes_to b"
  by (induction a rule: writes_to.induct) simp_all

lemma writes_to_usleep: "writes_to (usleep us tr) = writes_to tr"
  by (simp add: usleep_def writes_to_append)

lemma writes_to_change_status:
  "writes_to (snd (change_status dev led command params tr)) = writes_to tr @ [led_id led]"
  by (simp add: change_status_eq writes_to_append)

lemma writes_to_turn_off_led:
  "writes_to (snd (turn_off_led dev led tr)) = writes_to tr @ [led_id led]"
  by (simp add: turn_off_led_eq writes_to_append)

lemma writes_to_set_led_state_on:
  "\<exists>k\<ge>1. writes_to (snd (set_led_state dev led True color b tr))
          = writes_to tr @ replicate k (led_id led)"
proof -
  obtain r g bl where c: "color = (r, g, bl)"
    by (cases color) auto
  let ?t1 = "snd (set_rgb dev led r g bl tr)"
  let ?t2 = "snd (set_brightness dev led b (usleep 10000 ?t1))"
  let ?t3 = "snd (set_onoff dev led 1 (usleep 10000 ?t2))"
  have on: "set_onoff dev led 1 t = change_status dev led 0x03 (Some 1, None, None, None) t"
    for t
    by (simp add: set_onoff_def word_le_nat_alt)
  have w1: "writes_to ?t1 = writes_to tr @ [led_id led]"
    by (simp add: set_rgb_def writes_to_change_status)
  have w2: "writes_to ?t2 = writes_to tr @ [led_id led, led_id led]"
    by (simp add: set_brightness_def writes_to_change_status writes_to_usleep w1)
  have w3: "writes_to ?t3 = writes_to tr @ [led_id led, led_id led, led_id led]"
    by (simp add: on writes_to_change_status writes_to_usleep w2)
  have "snd (set_led_state dev led True color b tr) \<in> {?t1, ?t2, ?t3}"
    by (simp add: set_led_state_def c split: prod.splits)
  then consider "snd (set_led_state dev led True color b tr) = ?t1"
    | "snd (set_led_state dev led True color b tr) = ?t2"
    | "snd (set_led_state dev led True color b tr) = ?t3"
    by blast
  then show ?thesis
  proof cases
    case 1
    then show ?thesis using w1 by (intro exI [of _ 1]) simp
  next
    case 2
    then show ?thesis using w2 by (intro exI [of _ 2]) (simp add: numeral_2_eq_2)
  next
    case 3
    then show ?thesis using w3 by (intro exI [of _ 3]) (simp add: numeral_3_eq_3)
  qed
qed

lemma writes_to_led_step:
  "\<exists>k\<ge>1. writes_to (snd (led_step dev mgr led target_on color tr))
          = writes_to tr @ replicate k (led_id led)"
proof (cases target_on)
  case True
  then show ?thesis
    using writes_to_set_led_state_on [of dev led color "brightness mgr" "usleep 100000 tr"]
    by (simp add: led_step_def writes_to_usleep)
next
  case False
  then show ?thesis
    by (intro exI [of _ 1]) (simp add: led_step_def writes_to_turn_off_led writes_to_usleep)
qed

lemma apply_led_state_steps:
  assumes "get_target_led_states state = (n_on, d1_on, d2_on, color)"
    and "set_led_state dev power_led True COLOR_WHITE (brightness mgr) tr = (r0, t0)"
    and "led_step dev mgr netdev n_on color t0 = (r1, t1)"
    and "led_step dev mgr disk1 d1_on color t1 = (r2, t2)"
    and "led_step dev mgr disk2 d2_on color t2 = (r3, t3)"
  shows "apply_led_state dev mgr state tr
         = (if r0 \<noteq> 0 then (False, t0)
            else (r1 = 0 \<and> r2 = 0 \<and> r3 = 0, t3))"
  using assms unfolding apply_led_state_def led_step_def Let_def
  by (auto split: prod.splits if_splits)


lemmas run_defs = u8_not_2_le_1
  update_leds_def apply_led_state_def set_led_state_def set_rgb_def set_brightness_def
  set_onoff_def turn_off_led_def change_status_eq usleep_def determine_state_from_usage_def
  default_manager_def low_reading_def COLOR_WHITE_def COLOR_GREEN_def COLOR_OFF_def
  writes_to_append Let_def

lemma unat_UINT64_MAX: "unat UINT64_MAX = 2 ^ 64 - 1"
  by (simp add: UINT64_MAX_def)

lemma unat_u64_bound: "unat (w :: u64) \<le> 2 ^ 64 - 1"
proof -
  have "unat w < 2 ^ LENGTH(64)"
    by (rule unsigned_less)
  then show ?thesis by simp
qed

lemma unat_byte_diff:
  "unat (byte_diff current previous)
   = (if unat previous \<le> unat current then unat current - unat previous
      else (2 ^ 64 - 1 - unat previous) + unat current)"
proof (cases "previous \<le> current")
  case True
  then show ?thesis
    by (simp add: byte_diff_def word_le_nat_alt unat_sub)
next
  case False
  then have lt: "unat current < unat previous"
    by (simp add: word_le_nat_alt)
  have le: "previous \<le> UINT64_MAX"
    using unat_u64_bound [of previous] by (simp add: word_le_nat_alt unat_UINT64_MAX)
  have d: "unat (UINT64_MAX - previous) = 2 ^ 64 - 1 - unat previous"
    using le by (simp add: unat_sub unat_UINT64_MAX)
  have "unat (UINT64_MAX - previous) + unat current < 2 ^ LENGTH(64)"
    unfolding d using lt unat_u64_bound [of previous] by simp
  then have "unat ((UINT64_MAX - previous) + current)
             = unat (UINT64_MAX - previous) + unat current"
    by (rule unat_add_lem [THEN iffD1])
  then show ?thesis
    using False lt by (simp add: byte_diff_def d)
qed

lemma unat_byte_diff_delta:
  "unat (byte_diff current previous) = wraparound_delta (unat current) (unat previous)"
  by (simp add: unat_byte_diff wraparound_delta_def)

lemma uint_byte_diff_delta:
  "uint (byte_diff current previous) = int (wraparound_delta (unat current) (unat previous))"
  using unat_byte_diff_delta [of current previous] by (simp add: uint_nat)

section \<open>Command frames and their checksum\<close>

text \<open>
  Claim C1 (as amended).  Every frame that \<^verbatim>\<open>_change_status\<close> transmits has exactly 12 bytes,
  laid out as address, 0xA0, 0x01, 0x00, 0x00, opcode, four parameter bytes (an empty slot
  is 0) and two checksum bytes.  For every opcode, parameter tuple and LED, the checksum
  bytes hold, big-endian, the sum of the ten bytes before them with the address byte
  counted as 0, because the checksum is appended before the address is stored in byte 0.
  The sum of all ten transmitted bytes before the checksum therefore exceeds the checksum
  by the address byte; the two agree for the power LED (address 0) only.
\<close>

theorem change_status_frame:
  "\<exists>hi lo.
     snd (change_status dev led command (p0, p1, p2, p3) tr)
       = tr @ [WriteBlockData (led_id led)
                 [led_id led, 0xa0, 0x01, 0x00, 0x00, command,
                  value_or p0 0, value_or p1 0, value_or p2 0, value_or p3 0, hi, lo]]
     \<and> 256 * unat hi + unat lo
       = 0xa0 + 0x01 + 0x00 + 0x00 + unat command
         + unat (value_or p0 0) + unat (value_or p1 0) + unat (value_or p2 0)
         + unat (value_or p3 0)
     \<and> trailing_checksum
          [led_id led, 0xa0, 0x01, 0x00, 0x00, command,
           value_or p0 0, value_or p1 0, value_or p2 0, value_or p3 0, hi, lo]
         + unat (led_id led)
       = leading_sum
          [led_id led, 0xa0, 0x01, 0x00, 0x00, command,
           value_or p0 0, value_or p1 0, value_or p2 0, value_or p3 0, hi, lo]"
proof -
  obtain hi lo where
    ap: "append_checksum (change_status_data command (p0, p1, p2, p3))
         = change_status_data command (p0, p1, p2, p3) @ [hi, lo]"
    and s: "256 * unat hi + unat lo
            = 161 + unat command + unat (value_or p0 0) + unat (value_or p1 0)
              + unat (value_or p2 0) + unat (value_or p3 0)"
    using append_checksum_change_status_data by blast
  have "snd (change_status dev led command (p0, p1, p2, p3) tr)
       = tr @ [WriteBlockData (led_id led)
                 [led_id led, 0xa0, 0x01, 0x00, 0x00, command,
                  value_or p0 0, value_or p1 0, value_or p2 0, value_or p3 0, hi, lo]]"
    by (simp add: change_status_def ap write_block_data_def Let_def)
       (simp add: change_status_data_def)
  moreover have "trailing_checksum
          [led_id led, 0xa0, 0x01, 0x00, 0x00, command,
           value_or p0 0, value_or p1 0, value_or p2 0, value_or p3 0, hi, lo]
         + unat (led_id led)
       = leading_sum
          [led_id led, 0xa0, 0x01, 0x00, 0x00, command,
           value_or p0 0, value_or p1 0, value_or p2 0, value_or p3 0, hi, lo]"
    using s by (simp add: trailing_checksum_def leading_sum_def)
  ultimately show ?thesis
    using s by auto
qed

text \<open>
  Claim C1 as stated fails: the frame that switches the netdev LED on has 12 bytes, not 11,
  and its checksum bytes hold 165 while the ten bytes before them add up to 166.
\<close>

theorem change_status_frame_counterexample:
  "snd (change_status ok_device netdev 0x03 (Some 1, None, None, None) [])
     = [WriteBlockData 1 (on_frame netdev)]
   \<and> length (on_frame netdev) \<noteq> 11
   \<and> trailing_checksum (on_frame netdev) \<noteq> leading_sum (on_frame netdev)"
  by (simp add: change_status_def change_status_data_def append_checksum_def
      compute_checksum_def write_block_data_def ok_device_def on_frame_def
      value_or_def trailing_checksum_def leading_sum_def Let_def)

text \<open>
  Claim C2.  Checksum round trip: for every opcode and every tuple of up to four parameter
  bytes, the frame built from the fixed header, the opcode and the parameters, with the
  16-bit big-endian checksum appended, is accepted by \<^verbatim>\<open>verify_checksum\<close>.  This is the
  vector of \<^verbatim>\<open>_change_status\<close> right after \<^verbatim>\<open>append_checksum\<close>, whose first byte is still the
  placeholder 0.
\<close>

theorem checksum_round_trip:
  "verify_checksum (append_checksum (change_status_data command params))"
proof -
  obtain p0 p1 p2 p3 where p: "params = (p0, p1, p2, p3)"
    by (cases params) auto
  let ?d = "change_status_data command (p0, p1, p2, p3)"
  have len: "2 \<le> length ?d"
    by (simp add: change_status_data_def)
  have b: "161 \<le> sum_list (map uint ?d) \<and> sum_list (map uint ?d) \<le> 1436"
    unfolding change_status_data_sum
    using uint_u8_bounds [of command] uint_u8_bounds [of "value_or p0 0"]
      uint_u8_bounds [of "value_or p1 0"] uint_u8_bounds [of "value_or p2 0"]
      uint_u8_bounds [of "value_or p3 0"]
    by linarith
  show ?thesis
    unfolding p using b by (intro verify_append_checksum [OF len]) linarith+
qed

text \<open>
  Claim C3.  Zero-sum rejection: a frame whose bytes before the two trailing checksum
  bytes add up to 0 is rejected by \<^verbatim>\<open>verify_checksum\<close>, whatever the trailing bytes are;
  the all-zero buffer, whose trailing bytes match the sum, is rejected too.
\<close>

theorem zero_sum_rejection:
  "sum_list (map unat (take (length data - 2) data)) = 0 \<Longrightarrow> \<not> verify_checksum data"
proof -
  assume z: "sum_list (map unat (take (length data - 2) data)) = 0"
  have "sum_list (map uint xs) = int (sum_list (map unat xs))" for xs :: "u8 list"
    by (induction xs) simp_all
  with z have "sum_list (map uint (take (length data - 2) data)) = 0"
    by simp
  moreover have "nat (int (length data) - 2) = length data - 2"
    by simp
  ultimately show ?thesis
    by (simp add: verify_checksum_def compute_checksum_def foldl_uint_sum Let_def)
qed

theorem zero_sum_rejection_witness:
  "sum_list (map unat (take (length [0, 0, 0, 0 :: u8] - 2) [0, 0, 0, 0 :: u8])) = 0
   \<and> \<not> verify_checksum [0, 0, 0, 0]"
  using zero_sum_rejection [of "[0, 0, 0, 0]"] by simp

section \<open>Bandwidth sampler\<close>

text \<open>
  Claim C4.  Wraparound-safe delta: whenever \<^verbatim>\<open>get_bandwidth_usage\<close> computes a reading (the
  monitor is initialized, the counters are readable and at least 100 ms have passed), the
  byte delta that enters the received and the transmitted rate is, for each counter,
  \<open>current - previous\<close> when \<open>current \<ge> previous\<close> and \<open>(U64_MAX - previous) + current\<close>
  otherwise, as a number and without wrap-around; the rate is that delta times 8, divided
  by the seconds times 1000000, in the arithmetic of \<^verbatim>\<open>double\<close>, whatever that arithmetic is.
  For \<open>previous = 2^64 - 1 - 50\<close> and \<open>current = 10\<close> the delta is exactly 60.
\<close>

theorem sampler_wraparound_delta:
  assumes "initialized m" and "readable current_stats"
    and "100 \<le> elapsed_ms m current_stats"
  shows "rx_mbps (fst (get_bandwidth_usage fp m current_stats))
         = d_div fp
             (d_mul fp
                (d_of_int fp (int (wraparound_delta (unat (rx_bytes current_stats))
                                     (unat (rx_bytes (last_stats m))))))
                (d_of_int fp 8))
             (d_mul fp (d_div fp (d_of_int fp (elapsed_ms m current_stats)) (d_of_int fp 1000))
                (d_of_int fp 1000000))
       \<and> tx_mbps (fst (get_bandwidth_usage fp m current_stats))
         = d_div fp
             (d_mul fp
                (d_of_int fp (int (wraparound_delta (unat (tx_bytes current_stats))
                                     (unat (tx_bytes (last_stats m))))))
                (d_of_int fp 8))
             (d_mul fp (d_div fp (d_of_int fp (elapsed_ms m current_stats)) (d_of_int fp 1000))
                (d_of_int fp 1000000))
       \<and> wraparound_delta 10 (2 ^ 64 - 1 - 50) = 60
       \<and> byte_diff 10 (UINT64_MAX - 50) = 60"
proof -
  have w: "byte_diff 10 (UINT64_MAX - 50) = 60"
    by (simp add: byte_diff_def UINT64_MAX_def)
  show ?thesis
    using assms w
    by (simp add: get_bandwidth_usage_def readable_def elapsed_ms_def Let_def
        uint_byte_diff_delta wraparound_delta_def)
qed

theorem sampler_wraparound_delta_witness:
  "initialized wrap_monitor \<and> readable wrap_sample \<and> 100 \<le> elapsed_ms wrap_monitor wrap_sample
   \<and> rx_mbps (fst (get_bandwidth_usage symbolic_arith wrap_monitor wrap_sample))
     = Div (Mul (Num 60) (Num 8)) (Mul (Div (Num 1000) (Num 1000)) (Num 1000000))
   \<and> tx_mbps (fst (get_bandwidth_usage symbolic_arith wrap_monitor wrap_sample))
     = Div (Mul (Num 60) (Num 8)) (Mul (Div (Num 1000) (Num 1000)) (Num 1000000))"
proof -
  have i: "initialized wrap_monitor"
    by (simp add: wrap_monitor_def)
  have r: "readable wrap_sample"
    by (simp add: readable_def wrap_sample_def UINT64_MAX_def)
  have e: "elapsed_ms wrap_monitor wrap_sample = 1000"
    by (simp add: elapsed_ms_def wrap_monitor_def wrap_sample_def duration_cast_milliseconds_def)
  have e': "100 \<le> elapsed_ms wrap_monitor wrap_sample"
    by (simp add: e)
  have d: "wraparound_delta (unat (rx_bytes wrap_sample)) (unat (rx_bytes (last_stats wrap_monitor))) = 60"
    "wraparound_delta (unat (tx_bytes wrap_sample)) (unat (tx_bytes (last_stats wrap_monitor))) = 60"
    by (simp_all add: wraparound_delta_def wrap_monitor_def wrap_sample_def)
  show ?thesis
    using sampler_wraparound_delta [OF i r e', of symbolic_arith] i r e'
    by (simp add: d e symbolic_arith_def)
qed

text \<open>
  Claim C5 (as amended).  After initialization, a call of \<^verbatim>\<open>get_bandwidth_usage\<close> replaces the
  stored baseline sample with the sample it has just read exactly when the call produces a
  valid reading, that is when both counters were readable and at least 100 ms have passed
  since the baseline.  When the counters are unreadable or the interval is under 100 ms
  the reading is invalid and the monitor, baseline included, is exactly as before, so a
  call computes its delta against the sample of the last valid call or of the
  initialization.
\<close>

theorem baseline_replaced_iff_valid:
  assumes "initialized m"
  shows "valid (fst (get_bandwidth_usage fp m current_stats))
           = (readable current_stats \<and> 100 \<le> elapsed_ms m current_stats)
         \<and> snd (get_bandwidth_usage fp m current_stats)
           = (if valid (fst (get_bandwidth_usage fp m current_stats))
              then m\<lparr>last_stats := current_stats\<rparr> else m)"
  using assms
  by (auto simp: get_bandwidth_usage_def readable_def elapsed_ms_def Let_def)

theorem baseline_replaced_iff_valid_witness:
  "initialized (snd (initialize short_monitor True wrap_sample))
   \<and> \<not> valid (fst (get_bandwidth_usage symbolic_arith
                (snd (initialize short_monitor True wrap_sample)) unreadable_sample))
   \<and> last_stats (snd (get_bandwidth_usage symbolic_arith
                (snd (initialize short_monitor True wrap_sample)) unreadable_sample))
       = wrap_sample
   \<and> valid (fst (get_bandwidth_usage symbolic_arith short_monitor wrap_sample))
   \<and> last_stats (snd (get_bandwidth_usage symbolic_arith short_monitor wrap_sample))
       = wrap_sample"
proof -
  have i: "initialized (snd (initialize short_monitor True wrap_sample))"
    by (simp add: initialize_def short_monitor_def wrap_sample_def UINT64_MAX_def Let_def)
  have j: "initialized short_monitor"
    by (simp add: short_monitor_def)
  show ?thesis
    using baseline_replaced_iff_valid [OF i, of symbolic_arith unreadable_sample]
      baseline_replaced_iff_valid [OF j, of symbolic_arith wrap_sample] i
    by (simp add: readable_def elapsed_ms_def unreadable_sample_def wrap_sample_def
        short_monitor_def initialize_def duration_cast_milliseconds_def UINT64_MAX_def Let_def)
qed

text \<open>
  Claim C5 as stated fails: an initialized sampler that reads a sample 50 ms after its
  baseline, or a sample with unreadable counters, returns an invalid reading and keeps
  the old baseline instead of the sample just read.
\<close>

theorem baseline_counterexample:
  "initialized short_monitor
   \<and> \<not> valid (fst (get_bandwidth_usage symbolic_arith short_monitor short_sample))
   \<and> last_stats (snd (get_bandwidth_usage symbolic_arith short_monitor short_sample))
       \<noteq> short_sample
   \<and> \<not> valid (fst (get_bandwidth_usage symbolic_arith short_monitor unreadable_sample))
   \<and> last_stats (snd (get_bandwidth_usage symbolic_arith short_monitor unreadable_sample))
       \<noteq> unreadable_sample"
  by (simp add: get_bandwidth_usage_def short_monitor_def short_sample_def
      unreadable_sample_def duration_cast_milliseconds_def UINT64_MAX_def Let_def)

section \<open>Classification and application of the LED state\<close>

text \<open>
  Claim C6.  For every usage percentage in \<open>[0, 100]\<close> and thresholds with
  \<open>low \<le> medium \<le> high\<close> the classifier uses half-open bands: \<open>[0, low)\<close> gives
  \<^verbatim>\<open>UTILIZATION_OFF\<close> (OFF), \<open>[low, medium)\<close> gives \<^verbatim>\<open>NETDEV_GREEN\<close> (LOW),
  \<open>[medium, high)\<close> gives \<^verbatim>\<open>NETDEV_DISK1_BLUE\<close> (MEDIUM) and \<open>[high, 100]\<close> gives
  \<^verbatim>\<open>ALL_UTILIZATION_RED\<close> (HIGH).  With the thresholds 10/40/80 the values 9.99, 10, 39.99,
  40, 79.99, 80 and 100 are classified OFF, LOW, LOW, MEDIUM, MEDIUM, HIGH and HIGH.
\<close>

theorem classify_bands:
  assumes "low_threshold mgr \<le> medium_threshold mgr"
    and "medium_threshold mgr \<le> high_threshold mgr"
    and "0 \<le> usage" and "usage \<le> 100"
  shows "(determine_state_from_usage mgr usage = UTILIZATION_OFF)
           = (0 \<le> usage \<and> usage < real (unat (low_threshold mgr)))
       \<and> (determine_state_from_usage mgr usage = NETDEV_GREEN)
           = (real (unat (low_threshold mgr)) \<le> usage
              \<and> usage < real (unat (medium_threshold mgr)))
       \<and> (determine_state_from_usage mgr usage = NETDEV_DISK1_BLUE)
           = (real (unat (medium_threshold mgr)) \<le> usage
              \<and> usage < real (unat (high_threshold mgr)))
       \<and> (determine_state_from_usage mgr usage = ALL_UTILIZATION_RED)
           = (real (unat (high_threshold mgr)) \<le> usage \<and> usage \<le> 100)
       \<and> determine_state_from_usage default_manager 9.99 = UTILIZATION_OFF
       \<and> determine_state_from_usage default_manager 10 = NETDEV_GREEN
       \<and> determine_state_from_usage default_manager 39.99 = NETDEV_GREEN
       \<and> determine_state_from_usage default_manager 40 = NETDEV_DISK1_BLUE
       \<and> determine_state_from_usage default_manager 79.99 = NETDEV_DISK1_BLUE
       \<and> determine_state_from_usage default_manager 80 = ALL_UTILIZATION_RED
       \<and> determine_state_from_usage default_manager 100 = ALL_UTILIZATION_RED"
proof -
  have lm: "real (unat (low_threshold mgr)) \<le> real (unat (medium_threshold mgr))"
    using assms(1) by (simp only: word_le_nat_alt of_nat_le_iff)
  have mh: "real (unat (medium_threshold mgr)) \<le> real (unat (high_threshold mgr))"
    using assms(2) by (simp only: word_le_nat_alt of_nat_le_iff)
  have bands: "(determine_state_from_usage mgr usage = UTILIZATION_OFF)
           = (0 \<le> usage \<and> usage < real (unat (low_threshold mgr)))
       \<and> (determine_state_from_usage mgr usage = NETDEV_GREEN)
           = (real (unat (low_threshold mgr)) \<le> usage
              \<and> usage < real (unat (medium_threshold mgr)))
       \<and> (determine_state_from_usage mgr usage = NETDEV_DISK1_BLUE)
           = (real (unat (medium_threshold mgr)) \<le> usage
              \<and> usage < real (unat (high_threshold mgr)))
       \<and> (determine_state_from_usage mgr usage = ALL_UTILIZATION_RED)
           = (real (unat (high_threshold mgr)) \<le> usage \<and> usage \<le> 100)"
    using lm mh assms(3,4) unfolding determine_state_from_usage_def by auto
  have points: "determine_state_from_usage default_manager 9.99 = UTILIZATION_OFF
       \<and> determine_state_from_usage default_manager 10 = NETDEV_GREEN
       \<and> determine_state_from_usage default_manager 39.99 = NETDEV_GREEN
       \<and> determine_state_from_usage default_manager 40 = NETDEV_DISK1_BLUE
       \<and> determine_state_from_usage default_manager 79.99 = NETDEV_DISK1_BLUE
       \<and> determine_state_from_usage default_manager 80 = ALL_UTILIZATION_RED
       \<and> determine_state_from_usage default_manager 100 = ALL_UTILIZATION_RED"
    by (simp add: determine_state_from_usage_def default_manager_def)
  from bands points show ?thesis
    by (simp only: simp_thms)
qed

theorem classify_bands_witness:
  "low_threshold default_manager \<le> medium_threshold default_manager
   \<and> medium_threshold default_manager \<le> high_threshold default_manager
   \<and> determine_state_from_usage default_manager 15 = NETDEV_GREEN
   \<and> determine_state_from_usage default_manager 5 = UTILIZATION_OFF"
proof -
  have lm: "low_threshold default_manager \<le> medium_threshold default_manager"
    by (simp add: default_manager_def word_le_nat_alt)
  have mh: "medium_threshold default_manager \<le> high_threshold default_manager"
    by (simp add: default_manager_def word_le_nat_alt)
  show ?thesis
    using classify_bands [OF lm mh, of 15] classify_bands [OF lm mh, of 5] lm mh
    by (simp add: default_manager_def)
qed




text \<open>
  Claim C8 (as amended).  Partial-failure isolation: an apply sets the power LED first, and
  when that step fails it returns failure at once, having written to the power LED only.
  Once the power LED step has succeeded, netdev, disk1 and disk2 are all attempted, in
  that order, whether or not an earlier one of them fails; success is reported only if
  each of the three steps succeeded, and the recorded current state becomes the target
  state only then.  On any failure the recorded state is the one before the call.
\<close>

theorem apply_partial_failure:
  assumes "valid bandwidth_info"
    and "determine_state_from_usage mgr (usage_percentage bandwidth_info) = target"
    and "target \<noteq> current_state mgr"
    and "get_target_led_states target = (netdev_on, disk1_on, disk2_on, color)"
    and "set_led_state dev power_led True COLOR_WHITE (brightness mgr) tr = (r0, t0)"
    and "led_step dev mgr netdev netdev_on color t0 = (r1, t1)"
    and "led_step dev mgr disk1 disk1_on color t1 = (r2, t2)"
    and "led_step dev mgr disk2 disk2_on color t2 = (r3, t3)"
  shows "update_leds dev mgr bandwidth_info tr
         = (if r0 \<noteq> 0 then (False, mgr, t0)
            else if r1 = 0 \<and> r2 = 0 \<and> r3 = 0 then (True, mgr\<lparr>current_state := target\<rparr>, t3)
            else (False, mgr, t3))
       \<and> (\<exists>k0\<ge>1. writes_to t0 = writes_to tr @ replicate k0 (led_id power_led))
       \<and> (\<exists>k1\<ge>1. \<exists>k2\<ge>1. \<exists>k3\<ge>1.
            writes_to t3 = writes_to t0 @ replicate k1 (led_id netdev)
                           @ replicate k2 (led_id disk1) @ replicate k3 (led_id disk2))"
proof (intro conjI)
  have a: "apply_led_state dev mgr target tr
         = (if r0 \<noteq> 0 then (False, t0) else (r1 = 0 \<and> r2 = 0 \<and> r3 = 0, t3))"
    by (rule apply_led_state_steps [OF assms(4-8)])
  show "update_leds dev mgr bandwidth_info tr
         = (if r0 \<noteq> 0 then (False, mgr, t0)
            else if r1 = 0 \<and> r2 = 0 \<and> r3 = 0 then (True, mgr\<lparr>current_state := target\<rparr>, t3)
            else (False, mgr, t3))"
    using assms(1-3) by (simp add: update_leds_def a Let_def)
  show "\<exists>k0\<ge>1. writes_to t0 = writes_to tr @ replicate k0 (led_id power_led)"
    using writes_to_set_led_state_on [of dev power_led COLOR_WHITE "brightness mgr" tr] assms(5)
    by simp
  obtain k1 where k1: "1 \<le> k1" "writes_to t1 = writes_to t0 @ replicate k1 (led_id netdev)"
    using writes_to_led_step [of dev mgr netdev netdev_on color t0] assms(6) by auto
  obtain k2 where k2: "1 \<le> k2" "writes_to t2 = writes_to t1 @ replicate k2 (led_id disk1)"
    using writes_to_led_step [of dev mgr disk1 disk1_on color t1] assms(7) by auto
  obtain k3 where k3: "1 \<le> k3" "writes_to t3 = writes_to t2 @ replicate k3 (led_id disk2)"
    using writes_to_led_step [of dev mgr disk2 disk2_on color t2] assms(8) by auto
  show "\<exists>k1\<ge>1. \<exists>k2\<ge>1. \<exists>k3\<ge>1.
            writes_to t3 = writes_to t0 @ replicate k1 (led_id netdev)
                           @ replicate k2 (led_id disk1) @ replicate k3 (led_id disk2)"
    using k1 k2 k3 by (intro exI [of _ k1] exI [of _ k2] exI [of _ k3] conjI) simp_all
qed

theorem apply_partial_failure_witness:
  "valid low_reading
   \<and> determine_state_from_usage default_manager (usage_percentage low_reading) = NETDEV_GREEN
   \<and> NETDEV_GREEN \<noteq> current_state default_manager
   \<and> get_target_led_states NETDEV_GREEN = (True, False, False, COLOR_GREEN)
   \<and> fst (set_led_state netdev_fail_device power_led True COLOR_WHITE
            (brightness default_manager) []) = 0
   \<and> fst (led_step netdev_fail_device default_manager netdev True COLOR_GREEN
            (snd (set_led_state netdev_fail_device power_led True COLOR_WHITE
                   (brightness default_manager) []))) = - 1
   \<and> fst (update_leds netdev_fail_device default_manager low_reading []) = False
   \<and> fst (snd (update_leds netdev_fail_device default_manager low_reading []))
     = default_manager
   \<and> writes_to (snd (snd (update_leds netdev_fail_device default_manager low_reading [])))
     = [0, 0, 0, 1, 2, 3]"
proof -
  let ?dev = netdev_fail_device
  let ?mgr = default_manager
  let ?p = "set_led_state ?dev power_led True COLOR_WHITE (brightness ?mgr) []"
  let ?s1 = "led_step ?dev ?mgr netdev True COLOR_GREEN (snd ?p)"
  let ?s2 = "led_step ?dev ?mgr disk1 False COLOR_GREEN (snd ?s1)"
  let ?s3 = "led_step ?dev ?mgr disk2 False COLOR_GREEN (snd ?s2)"
  have v: "valid low_reading"
    by (simp add: low_reading_def)
  have d: "determine_state_from_usage ?mgr (usage_percentage low_reading) = NETDEV_GREEN"
    by (simp add: run_defs)
  have n: "NETDEV_GREEN \<noteq> current_state ?mgr"
    by (simp add: default_manager_def)
  have g: "get_target_led_states NETDEV_GREEN = (True, False, False, COLOR_GREEN)"
    by simp
  have r0: "fst ?p = 0"
    by (simp add: run_defs netdev_fail_device_def)
  have r1: "fst ?s1 = - 1"
    by (simp add: run_defs led_step_def netdev_fail_device_def)
  have r2: "fst ?s2 = 0"
    by (simp add: run_defs led_step_def off_frame_def onoff_frame_0 netdev_fail_device_def)
  have r3: "fst ?s3 = 0"
    by (simp add: run_defs led_step_def netdev_fail_device_def)
  have w: "writes_to (snd ?s3) = [0, 0, 0, 1, 2, 3]"
    by (simp add: run_defs led_step_def netdev_fail_device_def)
  have e0: "?p = (fst ?p, snd ?p)" and e1: "?s1 = (fst ?s1, snd ?s1)"
    and e2: "?s2 = (fst ?s2, snd ?s2)" and e3: "?s3 = (fst ?s3, snd ?s3)"
    by simp_all
  have u: "update_leds ?dev ?mgr low_reading [] = (False, ?mgr, snd ?s3)"
    using apply_partial_failure [OF v d n g e0 e1 e2 e3] r0 r1
    by simp
  show ?thesis
    using v d n g r0 r1 w unfolding u by simp
qed

text \<open>
  Claim C8 as stated fails: on a bus where the writes to the power LED fail, an apply of
  the state for 15 percent reports failure after one write to the power LED, and none of
  netdev, disk1 and disk2 is attempted.
\<close>

theorem apply_power_failure_counterexample:
  "valid low_reading
   \<and> determine_state_from_usage default_manager (usage_percentage low_reading)
     \<noteq> current_state default_manager
   \<and> \<not> fst (update_leds power_fail_device default_manager low_reading [])
   \<and> writes_to (snd (snd (update_leds power_fail_device default_manager low_reading [])))
     = [led_id power_led]
   \<and> led_id netdev \<notin> set (writes_to (snd (snd
        (update_leds power_fail_device default_manager low_reading []))))
   \<and> led_id disk1 \<notin> set (writes_to (snd (snd
        (update_leds power_fail_device default_manager low_reading []))))
   \<and> led_id disk2 \<notin> set (writes_to (snd (snd
        (update_leds power_fail_device default_manager low_reading []))))"
  by (simp add: run_defs power_fail_device_def)

section \<open>Switching LEDs off\<close>

text \<open>
  Claim C9.  \<^verbatim>\<open>turn_off_all_leds\<close> writes the off-frame to power, netdev, disk1 and disk2, in
  this order and whatever the earlier writes returned, and its result combines the four
  results by bitwise or, which is 0 only if all four are 0.  When all four writes
  succeed, the acknowledge register 0x80 is read after 50 ms, and a value other than 1
  turns the result into the failure -1.
\<close>

theorem turn_off_all_leds_sequence:
  fixes dev :: i2c_device_t and tr :: "event list"
  defines "w \<equiv> write_block_data_result dev"
  defines "tr0 \<equiv> tr @ [WriteBlockData 0 (off_frame power_led), Usleep 20000]"
  defines "tr1 \<equiv> tr0 @ [WriteBlockData 1 (off_frame netdev), Usleep 20000]"
  defines "tr2 \<equiv> tr1 @ [WriteBlockData 2 (off_frame disk1), Usleep 20000]"
  defines "tr3 \<equiv> tr2 @ [WriteBlockData 3 (off_frame disk2)]"
  defines "r0 \<equiv> w tr 0 (off_frame power_led)"
  defines "r1 \<equiv> w tr0 1 (off_frame netdev)"
  defines "r2 \<equiv> w tr1 2 (off_frame disk1)"
  defines "r3 \<equiv> w tr2 3 (off_frame disk2)"
  defines "ack \<equiv> read_byte_data_result dev (tr3 @ [Usleep 50000]) 0x80"
  shows "turn_off_all_leds dev tr
         = (if r0 = 0 \<and> r1 = 0 \<and> r2 = 0 \<and> r3 = 0
            then (if ack = 1 then 0 else - 1, tr3 @ [Usleep 50000, ReadByteData 0x80])
            else (r0 OR r1 OR r2 OR r3, tr3))
       \<and> (r0 OR r1 OR r2 OR r3 = 0) = (r0 = 0 \<and> r1 = 0 \<and> r2 = 0 \<and> r3 = 0)
       \<and> writes_to (snd (turn_off_all_leds dev tr))
         = writes_to tr @ [led_id power_led, led_id netdev, led_id disk1, led_id disk2]"
proof -
  have z: "(r0 OR r1 OR r2 OR r3 = 0) = (r0 = 0 \<and> r1 = 0 \<and> r2 = 0 \<and> r3 = 0)"
    by (simp add: or_eq_0_iff)
  have wa: "writes_to (a @ b) = writes_to a @ writes_to b" for a b
    by (induction a rule: writes_to.induct) simp_all
  have e: "turn_off_all_leds dev tr
         = (if r0 OR r1 OR r2 OR r3 = 0
            then (if ack = 1 then 0 else - 1, tr3 @ [Usleep 50000, ReadByteData 0x80])
            else (r0 OR r1 OR r2 OR r3, tr3))"
    unfolding turn_off_all_leds_def turn_off_led_eq usleep_def or_if Let_def
      is_last_modification_successful_def read_byte_data_def
    by (simp add: r0_def r1_def r2_def r3_def tr0_def tr1_def tr2_def tr3_def w_def ack_def
        or.assoc)
  have "writes_to (snd (turn_off_all_leds dev tr))
         = writes_to tr @ [led_id power_led, led_id netdev, led_id disk1, led_id disk2]"
    unfolding e by (simp add: wa tr0_def tr1_def tr2_def tr3_def)
  with e z show ?thesis by simp
qed

theorem turn_off_all_leds_sequence_witness:
  "turn_off_all_leds ack_fail_device []
   = (- 1, [WriteBlockData 0 (off_frame power_led), Usleep 20000,
            WriteBlockData 1 (off_frame netdev), Usleep 20000,
            WriteBlockData 2 (off_frame disk1), Usleep 20000,
            WriteBlockData 3 (off_frame disk2), Usleep 50000, ReadByteData 0x80])"
  using turn_off_all_leds_sequence [of ack_fail_device "[]"]
  by (simp add: ack_fail_device_def)

text \<open>
  Claim C10.  \<^verbatim>\<open>set_onoff\<close> validates its argument: for every LED and every status of 2 or
  more it returns -1 and the trace is as before, so nothing is written to the bus; the
  statuses 0 and 1, and only these, transmit a command frame, the off-frame and the
  on-frame of the LED.
\<close>

theorem set_onoff_validation:
  "(2 \<le> status \<longrightarrow> set_onoff dev led status tr = (- 1, tr))
   \<and> (status = 0 \<longrightarrow>
        set_onoff dev led status tr
        = (write_block_data_result dev tr (led_id led) (off_frame led),
           tr @ [WriteBlockData (led_id led) (off_frame led)]))
   \<and> (status = 1 \<longrightarrow>
        set_onoff dev led status tr
        = (write_block_data_result dev tr (led_id led) (on_frame led),
           tr @ [WriteBlockData (led_id led) (on_frame led)]))
   \<and> (snd (set_onoff dev led status tr) \<noteq> tr) = (status = 0 \<or> status = 1)"
proof -
  have "\<not> 2 \<le> status \<longleftrightarrow> status = 0 \<or> status = 1"
    using u8_less_2 [of status] by (simp add: not_le)
  then show ?thesis
    by (auto simp: set_onoff_def change_status_eq onoff_frame_0 onoff_frame_1)
qed

theorem set_onoff_validation_witness:
  "(2::u8) \<le> 2 \<and> set_onoff ok_device netdev 2 [] = (- 1, [])
   \<and> set_onoff ok_device netdev 0 [] = (0, [WriteBlockData 1 (off_frame netdev)])
   \<and> set_onoff ok_device netdev 1 [] = (0, [WriteBlockData 1 (on_frame netdev)])"
  using set_onoff_validation [of 2 ok_device netdev "[]"]
    set_onoff_validation [of 0 ok_device netdev "[]"]
    set_onoff_validation [of 1 ok_device netdev "[]"]
  by (simp add: ok_device_def)

end
